theory Spec2Isabelle
  imports Main
begin

section \<open>The pod-modifier admission webhook (cmd/webhook.go)\<close>

text \<open>
  A shallow embedding of \<^verbatim>\<open>mutationRequired\<close>, \<^verbatim>\<open>createPatch\<close>,
  \<^verbatim>\<open>mutate\<close> and \<^verbatim>\<open>serve\<close>. Byte slices and Go strings are
  \<^typ>\<open>string\<close>; a Go \<^verbatim>\<open>error\<close> is the text its \<^verbatim>\<open>Error()\<close> method
  returns; a pointer that may be nil is an \<^typ>\<open>'a option\<close>. Calls of \<^verbatim>\<open>glog\<close> only
  write to the log and are left out.
\<close>

subsection \<open>Kubernetes objects, as far as the webhook reads them\<close>

type_synonym error = string

text \<open>\<^verbatim>\<open>corev1.ResourceRequirements\<close>: two maps from a resource name to a quantity.\<close>

record ResourceRequirements =
  Limits :: "string \<rightharpoonup> string"
  Requests :: "string \<rightharpoonup> string"

text \<open>\<^verbatim>\<open>corev1.Container\<close>: its \<^verbatim>\<open>Name\<close>, its \<^verbatim>\<open>Resources\<close>, and
  \<^verbatim>\<open>Image\<close> standing for the fields the webhook never touches.\<close>

record Container =
  ContainerName :: string
  Image :: string
  Resources :: ResourceRequirements

record PodSpec =
  Containers :: "Container list"
  NodeName :: string

text \<open>\<^verbatim>\<open>metav1.ObjectMeta\<close>; a nil annotation map is the empty map (both answer
  every lookup with \<^verbatim>\<open>ok = false\<close>).\<close>

record ObjectMeta =
  Name :: string
  Namespace :: string
  Annotations :: "string \<rightharpoonup> string"

record Pod =
  ObjectMeta :: ObjectMeta
  Spec :: PodSpec

text \<open>\<^verbatim>\<open>type config struct { Pods []corev1.Pod }\<close> of the main file.\<close>

record config =
  Pods :: "Pod list"

text \<open>The zero value of \<^verbatim>\<open>corev1.Pod\<close>, which \<^verbatim>\<open>var cpod corev1.Pod\<close> declares.\<close>

definition zeroPod :: Pod where
  "zeroPod = \<lparr>ObjectMeta = \<lparr>Name = [], Namespace = [], Annotations = Map.empty\<rparr>,
              Spec = \<lparr>Containers = [], NodeName = []\<rparr>\<rparr>"

subsection \<open>The admission review envelope\<close>

text \<open>\<^verbatim>\<open>v1.AdmissionRequest\<close>; \<^verbatim>\<open>ObjectRaw\<close> is \<^verbatim>\<open>Object.Raw\<close>.\<close>

record AdmissionRequest =
  UID :: string
  Kind :: string
  ReqNamespace :: string
  ReqName :: string
  Operation :: string
  UserInfo :: string
  ObjectRaw :: string

record Status =
  Message :: string

text \<open>\<^verbatim>\<open>v1.AdmissionResponse\<close>; \<^verbatim>\<open>RespUID\<close> is its \<^verbatim>\<open>UID\<close>. A nil or empty
  \<^verbatim>\<open>Patch\<close> is the empty list, a nil \<^verbatim>\<open>Result\<close> or \<^verbatim>\<open>PatchType\<close> is
  \<^term>\<open>None\<close>.\<close>

record AdmissionResponse =
  RespUID :: string
  Allowed :: bool
  Result :: "Status option"
  Patch :: string
  PatchType :: "string option"

record AdmissionReview =
  Request :: "AdmissionRequest option"
  Response :: "AdmissionResponse option"

text \<open>The composite literal \<^verbatim>\<open>v1.AdmissionResponse{}\<close> and
  \<^verbatim>\<open>v1.AdmissionReview{}\<close>: every field at its zero value.\<close>

definition zeroResponse :: AdmissionResponse where
  "zeroResponse = \<lparr>RespUID = [], Allowed = False, Result = None, Patch = [], PatchType = None\<rparr>"

definition zeroReview :: AdmissionReview where
  "zeroReview = \<lparr>Request = None, Response = None\<rparr>"

definition PatchTypeJSONPatch :: string where
  "PatchTypeJSONPatch = ''JSONPatch''"

subsection \<open>The libraries the webhook calls\<close>

text \<open>One operation of \<^verbatim>\<open>jsonpatch\<close>: \<^verbatim>\<open>{op, path, value}\<close>.\<close>

record JsonPatchOperation =
  Op :: string
  Path :: string
  Value :: string

text \<open>
  The decoders, encoders and the differ are library code (\<^verbatim>\<open>encoding/json\<close>,
  apimachinery's universal deserializer, \<^verbatim>\<open>mattbaird/jsonpatch\<close>), so the webhook's
  functions take them as a parameter. \<^verbatim>\<open>Decode\<close> fills the review it is given and returns
  an error or nil: the model returns the review as \<^verbatim>\<open>Decode\<close> leaves it, with the error.
  The other functions return their value or an error.
\<close>

record externals =
  Decode :: "string \<Rightarrow> AdmissionReview \<times> error option"
  UnmarshalPod :: "string \<Rightarrow> error + Pod"
  UnmarshalConfig :: "string \<Rightarrow> error + config"
  MarshalPod :: "Pod \<Rightarrow> error + string"
  CreatePatch :: "string \<Rightarrow> string \<Rightarrow> error + JsonPatchOperation list"
  MarshalPatch :: "JsonPatchOperation list \<Rightarrow> error + string"

subsection \<open>mutationRequired\<close>

text \<open>\<^verbatim>\<open>metav1.NamespaceSystem\<close> and \<^verbatim>\<open>metav1.NamespacePublic\<close>.\<close>

definition ignoredNamespaces :: "string list" where
  "ignoredNamespaces = [''kube-system'', ''kube-public'']"

fun mutationRequired :: "string list \<Rightarrow> ObjectMeta \<Rightarrow> bool" where
  "mutationRequired [] metadata = True"
| "mutationRequired (namespace # ignoredList) metadata =
     (if Namespace metadata = namespace then False
      else mutationRequired ignoredList metadata)"

subsection \<open>createPatch\<close>

text \<open>
  The first loop: \<^verbatim>\<open>for _, cpod = range c.Pods\<close> assigns every entry to \<^verbatim>\<open>cpod\<close> and
  breaks at the first one named as the pod. The state is \<^verbatim>\<open>(cpod, found)\<close>.
\<close>

fun find_cpod :: "string \<Rightarrow> Pod list \<Rightarrow> Pod \<Rightarrow> Pod \<times> bool" where
  "find_cpod podName [] cpod = (cpod, False)"
| "find_cpod podName (p # ps) cpod =
     (if podName = Name (ObjectMeta p) then (p, True) else find_cpod podName ps p)"

text \<open>
  The inner loop over \<^verbatim>\<open>initializedPod.Spec.Containers\<close> for one \<^verbatim>\<open>configContainer\<close>:
  every container of that name gets the resources of \<^verbatim>\<open>configContainer\<close>, and \<^verbatim>\<open>found\<close>
  is set. The state is the container list and \<^verbatim>\<open>found\<close>.
\<close>

fun scan_containers :: "Container \<Rightarrow> Container list \<Rightarrow> bool \<Rightarrow> Container list \<times> bool" where
  "scan_containers configContainer [] found = ([], found)"
| "scan_containers configContainer (initializedContainer # rest) found =
     (if ContainerName configContainer = ContainerName initializedContainer
      then (case scan_containers configContainer rest True of
              (rest', found') \<Rightarrow>
                (initializedContainer\<lparr>Resources := Resources configContainer\<rparr> # rest', found'))
      else (case scan_containers configContainer rest found of
              (rest', found') \<Rightarrow> (initializedContainer # rest', found')))"

text \<open>The outer loop over \<^verbatim>\<open>cpod.Spec.Containers\<close>.\<close>

fun override_containers :: "Container list \<Rightarrow> Container list \<Rightarrow> bool \<Rightarrow> Container list \<times> bool" where
  "override_containers [] initialized found = (initialized, found)"
| "override_containers (configContainer # rest) initialized found =
     (case scan_containers configContainer initialized found of
        (initialized', found') \<Rightarrow> override_containers rest initialized' found')"

text \<open>
  Lines 107 to 153 of \<^verbatim>\<open>createPatch\<close>: the working copy \<^verbatim>\<open>initializedPod\<close> after the
  overrides, \<^term>\<open>None\<close> on each path that returns \<^verbatim>\<open>[]byte{}, nil\<close> before the diff,
  and the decode error of the annotation. \<^verbatim>\<open>DeepCopy\<close> is the identity on values.
\<close>

definition applyOverrides :: "externals \<Rightarrow> string \<Rightarrow> Pod \<Rightarrow> error + Pod option" where
  "applyOverrides ext annotation pod =
     (let initializedPod = pod;
          a = Annotations (ObjectMeta pod)
      in case a (annotation @ ''.podDefinition'') of
           None \<Rightarrow> Inr None
         | Some podDefinitionAnnotation \<Rightarrow>
             (case UnmarshalConfig ext podDefinitionAnnotation of
                Inl err \<Rightarrow> Inl err
              | Inr c \<Rightarrow>
                  (case find_cpod (Name (ObjectMeta pod)) (Pods c) zeroPod of
                     (cpod, found) \<Rightarrow>
                       if \<not> found then Inr None
                       else (case override_containers (Containers (Spec cpod))
                                    (Containers (Spec initializedPod)) False of
                               (containers, found') \<Rightarrow>
                                 if \<not> found' then Inr None
                                 else Inr (Some (initializedPod
                                        \<lparr>Spec := (Spec initializedPod)\<lparr>Containers := containers\<rparr>\<rparr>))))))"

text \<open>Lines 155 to 178: both pods are serialised, diffed, and the patch is serialised.\<close>

definition diffPods :: "externals \<Rightarrow> Pod \<Rightarrow> Pod \<Rightarrow> error + string" where
  "diffPods ext pod initializedPod =
     (case MarshalPod ext pod of
        Inl err \<Rightarrow> Inl err
      | Inr oldData \<Rightarrow>
          (case MarshalPod ext initializedPod of
             Inl err \<Rightarrow> Inl err
           | Inr newData \<Rightarrow>
               (case CreatePatch ext oldData newData of
                  Inl err \<Rightarrow> Inl err
                | Inr patch \<Rightarrow>
                    (case MarshalPatch ext patch of
                       Inl err \<Rightarrow> Inl err
                     | Inr patchBytes \<Rightarrow> Inr patchBytes))))"

text \<open>\<^verbatim>\<open>createPatch\<close>: \<^term>\<open>Inl err\<close> is \<^verbatim>\<open>([]byte{}, err)\<close>, \<^term>\<open>Inr b\<close> is
  \<^verbatim>\<open>(b, nil)\<close>. The parameter \<^verbatim>\<open>annotation\<close> is the global the flag sets.\<close>

definition createPatch :: "externals \<Rightarrow> string \<Rightarrow> Pod \<Rightarrow> error + string" where
  "createPatch ext annotation pod =
     (case applyOverrides ext annotation pod of
        Inl err \<Rightarrow> Inl err
      | Inr None \<Rightarrow> Inr []
      | Inr (Some initializedPod) \<Rightarrow> diffPods ext pod initializedPod)"

subsection \<open>mutate\<close>

text \<open>What a call does: it returns, or it panics on a nil pointer.\<close>

datatype 'a run = NilPanic | Done 'a

text \<open>
  \<^verbatim>\<open>req := ar.Request\<close> is a pointer; \<^verbatim>\<open>req.Object.Raw\<close> dereferences it first thing,
  with no check.
\<close>

definition mutate :: "externals \<Rightarrow> string \<Rightarrow> AdmissionReview \<Rightarrow> AdmissionResponse run" where
  "mutate ext annotation ar =
     (case Request ar of
        None \<Rightarrow> NilPanic
      | Some req \<Rightarrow>
          (case UnmarshalPod ext (ObjectRaw req) of
             Inl err \<Rightarrow> Done (zeroResponse\<lparr>Result := Some \<lparr>Message = err\<rparr>\<rparr>)
           | Inr pod \<Rightarrow>
               if \<not> mutationRequired ignoredNamespaces (ObjectMeta pod)
               then Done (zeroResponse\<lparr>Allowed := True\<rparr>)
               else (case createPatch ext annotation pod of
                       Inl err \<Rightarrow> Done (zeroResponse\<lparr>Result := Some \<lparr>Message = err\<rparr>\<rparr>)
                     | Inr patchBytes \<Rightarrow>
                         Done (zeroResponse\<lparr>Allowed := True, Patch := patchBytes,
                                 PatchType := Some PatchTypeJSONPatch\<rparr>))))"

subsection \<open>serve\<close>

text \<open>
  The request as \<^verbatim>\<open>serve\<close> reads it: \<^verbatim>\<open>Body\<close> is what \<^verbatim>\<open>ioutil.ReadAll\<close> returned,
  \<^term>\<open>None\<close> when \<^verbatim>\<open>r.Body\<close> is nil or the read fails; \<^verbatim>\<open>ContentType\<close> is the header.
\<close>

record HttpRequest =
  Body :: "string option"
  ContentType :: string

text \<open>
  What \<^verbatim>\<open>serve\<close> hands to the transport: an \<^verbatim>\<open>http.Error\<close> with its status code, or
  the review that is serialised and written.
\<close>

datatype reply = HttpError nat string | Review AdmissionReview

text \<open>
  \<^verbatim>\<open>mutate\<close> and the decode branch both build \<^verbatim>\<open>&v1.AdmissionResponse{...}\<close>, so
  \<^verbatim>\<open>admissionResponse != nil\<close> holds whenever the line is reached.
\<close>

definition serve :: "externals \<Rightarrow> string \<Rightarrow> HttpRequest \<Rightarrow> reply run" where
  "serve ext annotation r =
     (let body = (case Body r of None \<Rightarrow> [] | Some data \<Rightarrow> data)
      in if length body = 0 then Done (HttpError 400 ''empty body'')
         else if ContentType r \<noteq> ''application/json''
         then Done (HttpError 415 ''invalid Content-Type, expect `application/json`'')
         else (case Decode ext body of
                 (ar, err) \<Rightarrow>
                   (case (case err of
                            Some e \<Rightarrow> Done (zeroResponse\<lparr>Result := Some \<lparr>Message = e\<rparr>\<rparr>)
                          | None \<Rightarrow> mutate ext annotation ar) of
                      NilPanic \<Rightarrow> NilPanic
                    | Done admissionResponse \<Rightarrow>
                        Done (Review (zeroReview\<lparr>Response :=
                          Some (case Request ar of
                                  None \<Rightarrow> admissionResponse
                                | Some req \<Rightarrow> admissionResponse\<lparr>RespUID := UID req\<rparr>)\<rparr>)))))"

subsection \<open>Concrete requests\<close>

text \<open>\<^verbatim>\<open>defaultAnnotation\<close> of the main file, the value of the flag when it is not given.\<close>

definition defaultAnnotation :: string where
  "defaultAnnotation = ''pod-modifier.solace.com/modify''"

text \<open>A JSON string literal: the text in double quotes, with \<^verbatim>\<open>"\<close> and the backslash
  escaped. It only serves to write the request texts below.\<close>

fun jsonEscape :: "string \<Rightarrow> string" where
  "jsonEscape [] = []"
| "jsonEscape (c # cs) =
     (if c = CHR 0x22 \<or> c = CHR 0x5C then CHR 0x5C # c # jsonEscape cs else c # jsonEscape cs)"

definition jsonString :: "string \<Rightarrow> string" where
  "jsonString s = [CHR 0x22] @ jsonEscape s @ [CHR 0x22]"

text \<open>Resources and containers of the examples.\<close>

definition oldResources :: ResourceRequirements where
  "oldResources = \<lparr>Limits = Map.empty, Requests = [''cpu'' \<mapsto> ''2'', ''memory'' \<mapsto> ''4Gi'']\<rparr>"

definition newResources :: ResourceRequirements where
  "newResources = \<lparr>Limits = [''cpu'' \<mapsto> ''1'', ''memory'' \<mapsto> ''2Gi''],
                    Requests = [''cpu'' \<mapsto> ''500m'', ''memory'' \<mapsto> ''1Gi'']\<rparr>"

definition solace :: Container where
  "solace = \<lparr>ContainerName = ''solace'', Image = ''app:1'', Resources = oldResources\<rparr>"

definition sidecar :: Container where
  "sidecar = \<lparr>ContainerName = ''sidecar'', Image = ''app:1'', Resources = oldResources\<rparr>"

text \<open>An override document for the pod \<^verbatim>\<open>web-2\<close> and its container \<^verbatim>\<open>solace\<close>, and
  what \<^verbatim>\<open>json.Unmarshal\<close> makes of it.\<close>

definition overrideDoc :: string where
  \<open>overrideDoc = ''{"Pods":[{"metadata":{"name":"web-2"},"spec":{"containers":[{"name":"solace","resources":{"limits":{"cpu":"1","memory":"2Gi"},"requests":{"cpu":"500m","memory":"1Gi"}}}]}}]}''\<close>

definition overrideConfig :: config where
  "overrideConfig =
     \<lparr>Pods = [\<lparr>ObjectMeta = \<lparr>Name = ''web-2'', Namespace = [], Annotations = Map.empty\<rparr>,
               Spec = \<lparr>Containers = [\<lparr>ContainerName = ''solace'', Image = [],
                                         Resources = newResources\<rparr>],
                       NodeName = []\<rparr>\<rparr>]\<rparr>"

text \<open>An override document with entries for the pods \<^verbatim>\<open>a\<close> and \<^verbatim>\<open>b\<close>.\<close>

definition abDoc :: string where
  \<open>abDoc = ''{"Pods":[{"metadata":{"name":"a"}},{"metadata":{"name":"b"}}]}''\<close>

definition namedPod :: "string \<Rightarrow> Pod" where
  "namedPod n = zeroPod\<lparr>ObjectMeta := (ObjectMeta zeroPod)\<lparr>Name := n\<rparr>\<rparr>"

definition abConfig :: config where
  "abConfig = \<lparr>Pods = [namedPod ''a'', namedPod ''b'']\<rparr>"

text \<open>A pod with a name, a namespace, the value of the override annotation (if any) and
  containers.\<close>

definition mkPod :: "string \<Rightarrow> string \<Rightarrow> string option \<Rightarrow> Container list \<Rightarrow> Pod" where
  "mkPod n ns doc cs =
     \<lparr>ObjectMeta = \<lparr>Name = n, Namespace = ns,
                     Annotations = (case doc of
                                      None \<Rightarrow> Map.empty
                                    | Some d \<Rightarrow> [defaultAnnotation @ ''.podDefinition'' \<mapsto> d])\<rparr>,
      Spec = \<lparr>Containers = cs, NodeName = []\<rparr>\<rparr>"

text \<open>The serialised pod that arrives in \<^verbatim>\<open>request.object\<close>, with one container of the
  given name.\<close>

definition podText :: "string \<Rightarrow> string \<Rightarrow> string option \<Rightarrow> string \<Rightarrow> string" where
  \<open>podText n ns doc cn =
     ''{"metadata":{"name":'' @ jsonString n @ '',"namespace":'' @ jsonString ns @
     (case doc of
        None \<Rightarrow> []
      | Some d \<Rightarrow> '',"annotations":{'' @ jsonString (defaultAnnotation @ ''.podDefinition'') @
                  '':'' @ jsonString d @ ''}'') @
     ''},"spec":{"containers":[{"name":'' @ jsonString cn @
     '',"image":"app:1","resources":{"requests":{"cpu":"2","memory":"4Gi"}}}]}}''\<close>

text \<open>The pods of the examples:
  \<^item> \<^verbatim>\<open>web-1\<close> has no annotation;
  \<^item> \<^verbatim>\<open>web-0\<close> carries an annotation that is not JSON, once in \<^verbatim>\<open>default\<close> and once
    in \<^verbatim>\<open>kube-system\<close>;
  \<^item> \<^verbatim>\<open>c\<close> carries the document for \<^verbatim>\<open>a\<close> and \<^verbatim>\<open>b\<close>;
  \<^item> \<^verbatim>\<open>web-2\<close> carries its override document, once with the container \<^verbatim>\<open>sidecar\<close>
    alone and once with two containers named \<^verbatim>\<open>solace\<close> around a \<^verbatim>\<open>sidecar\<close>.\<close>

definition plainPod :: Pod where
  "plainPod = mkPod ''web-1'' ''default'' None [solace]"

definition malformedPod :: Pod where
  "malformedPod = mkPod ''web-0'' ''default'' (Some ''not json'') [solace]"

definition systemPod :: Pod where
  "systemPod = mkPod ''web-0'' ''kube-system'' (Some ''not json'') [solace]"

definition podC :: Pod where
  "podC = mkPod ''c'' ''default'' (Some abDoc) [solace]"

definition sidecarPod :: Pod where
  "sidecarPod = mkPod ''web-2'' ''default'' (Some overrideDoc) [sidecar]"

definition dupPod :: Pod where
  "dupPod = mkPod ''web-2'' ''default'' (Some overrideDoc)
              [solace, sidecar, solace\<lparr>Image := ''app:2''\<rparr>]"

text \<open>Their serialised forms and the requests that carry them.\<close>

definition plainText :: string where
  "plainText = podText ''web-1'' ''default'' None ''solace''"

definition malformedText :: string where
  "malformedText = podText ''web-0'' ''default'' (Some ''not json'') ''solace''"

definition systemText :: string where
  "systemText = podText ''web-0'' ''kube-system'' (Some ''not json'') ''solace''"

definition podCText :: string where
  "podCText = podText ''c'' ''default'' (Some abDoc) ''solace''"

definition sidecarText :: string where
  "sidecarText = podText ''web-2'' ''default'' (Some overrideDoc) ''sidecar''"

definition mkRequest :: "string \<Rightarrow> string \<Rightarrow> string \<Rightarrow> AdmissionRequest" where
  "mkRequest uid ns raw =
     \<lparr>UID = uid, Kind = [], ReqNamespace = ns, ReqName = [], Operation = ''CREATE'',
      UserInfo = [], ObjectRaw = raw\<rparr>"

definition mkReview :: "string \<Rightarrow> string \<Rightarrow> string \<Rightarrow> AdmissionReview" where
  "mkReview uid ns raw = \<lparr>Request = Some (mkRequest uid ns raw), Response = None\<rparr>"

text \<open>Review bodies: a complete one for the pod \<^verbatim>\<open>web-1\<close>, one without a
  \<^verbatim>\<open>request\<close>, and one cut off before its last brace.\<close>

definition plainBody :: string where
  \<open>plainBody =
     ''{"kind":"AdmissionReview","apiVersion":"admission.k8s.io/v1","request":{"uid":"abc","namespace":"default","operation":"CREATE","object":'' @
     plainText @ ''}}''\<close>

definition noRequestBody :: string where
  \<open>noRequestBody = ''{"kind":"AdmissionReview","apiVersion":"admission.k8s.io/v1"}''\<close>

definition truncatedBody :: string where
  \<open>truncatedBody = ''{"kind":"AdmissionReview","apiVersion":"admission.k8s.io/v1","request":{"uid":"abc"}''\<close>

text \<open>
  The answers of the libraries at these texts, as a table. A text the table does not list is
  answered with an error, and the encoders have no entry: no example below reaches them.
  \<^item> \<^verbatim>\<open>Decode\<close> fails on the truncated body before it touches the review, and it
    succeeds on the body without a \<^verbatim>\<open>request\<close>, leaving the pointer nil.
  \<^item> \<^verbatim>\<open>json.Unmarshal\<close> rejects \<^verbatim>\<open>not json\<close> at its second byte (\<^verbatim>\<open>n\<close> begins
    the literal \<^verbatim>\<open>null\<close>).
\<close>

definition tableExt :: externals where
  "tableExt =
     \<lparr>Decode = (\<lambda>body.
         if body = plainBody then (mkReview ''abc'' ''default'' plainText, None)
         else if body = noRequestBody then (zeroReview, None)
         else if body = truncatedBody
         then (zeroReview,
               Some ''couldn't get version/kind; json parse error: unexpected end of JSON input'')
         else (zeroReview, Some ''not in the table'')),
      UnmarshalPod = (\<lambda>raw.
         if raw = plainText then Inr plainPod
         else if raw = malformedText then Inr malformedPod
         else if raw = systemText then Inr systemPod
         else if raw = podCText then Inr podC
         else if raw = sidecarText then Inr sidecarPod
         else Inl ''not in the table''),
      UnmarshalConfig = (\<lambda>doc.
         if doc = overrideDoc then Inr overrideConfig
         else if doc = abDoc then Inr abConfig
         else if doc = ''not json''
         then Inl ''invalid character 'o' in literal null (expecting 'u')''
         else Inl ''not in the table''),
      MarshalPod = (\<lambda>pod. Inl ''not in the table''),
      CreatePatch = (\<lambda>oldData newData. Inl ''not in the table''),
      MarshalPatch = (\<lambda>patch. Inl ''not in the table'')\<rparr>"

text \<open>
  An override document with three entries: one for the pod \<^verbatim>\<open>a\<close>, then two for the pod
  \<^verbatim>\<open>b\<close>, of which only the second names a container. The pod \<^verbatim>\<open>b\<close> carries it, and
  the table is extended by what \<^verbatim>\<open>json.Unmarshal\<close> makes of it.
\<close>

definition bbDoc :: string where
  \<open>bbDoc = ''{"Pods":[{"metadata":{"name":"a"}},{"metadata":{"name":"b"}},{"metadata":{"name":"b"},"spec":{"containers":[{"name":"solace","resources":{"requests":{"cpu":"500m"}}}]}}]}''\<close>

definition bSolacePod :: Pod where
  "bSolacePod =
     (namedPod ''b'')
       \<lparr>Spec := \<lparr>Containers = [\<lparr>ContainerName = ''solace'', Image = [],
                                   Resources = \<lparr>Limits = Map.empty,
                                                Requests = [''cpu'' \<mapsto> ''500m'']\<rparr>\<rparr>],
                  NodeName = []\<rparr>\<rparr>"

definition bbConfig :: config where
  "bbConfig = \<lparr>Pods = [namedPod ''a'', namedPod ''b'', bSolacePod]\<rparr>"

definition podB :: Pod where
  "podB = mkPod ''b'' ''default'' (Some bbDoc) [solace]"

definition bbExt :: externals where
  "bbExt = tableExt\<lparr>UnmarshalConfig :=
             (\<lambda>doc. if doc = bbDoc then Inr bbConfig else UnmarshalConfig tableExt doc)\<rparr>"

section \<open>The loops of createPatch\<close>

text \<open>The policy check is membership in the list.\<close>

lemma mutationRequired_iff: "mutationRequired ignoredList metadata = (Namespace metadata \<notin> set ignoredList)"
  by (induction ignoredList) auto

text \<open>The search for the override entry stops at the first entry of the pod's name.\<close>

lemma find_cpod_first:
  assumes "\<forall>q\<in>set pre. Name (ObjectMeta q) \<noteq> n" and "Name (ObjectMeta p) = n"
  shows "find_cpod n (pre @ p # post) z = (p, True)"
  using assms by (induction pre arbitrary: z) auto

lemma find_cpod_found: "snd (find_cpod n ps z) = (\<exists>q\<in>set ps. Name (ObjectMeta q) = n)"
  by (induction ps arbitrary: z) auto

lemma find_cpod_miss:
  assumes "\<forall>q\<in>set ps. Name (ObjectMeta q) \<noteq> n"
  shows "\<exists>cpod. find_cpod n ps z = (cpod, False)"
proof -
  from assms have "\<not> snd (find_cpod n ps z)"
    by (simp add: find_cpod_found)
  then show ?thesis
    by (cases "find_cpod n ps z") auto
qed

text \<open>One pass of the inner loop rewrites exactly the containers of the override's name.\<close>

lemma scan_containers_eq:
  "scan_containers cc ics found =
     (map (\<lambda>ic. if ContainerName cc = ContainerName ic
                then ic\<lparr>Resources := Resources cc\<rparr> else ic) ics,
      found \<or> (\<exists>ic\<in>set ics. ContainerName cc = ContainerName ic))"
  by (induction ics arbitrary: found) auto

text \<open>After the outer loop a container carries the resources of the last override of its
  name, and is untouched when no override has its name.\<close>

lemma override_containers_eq:
  "override_containers ccs ics found =
     (map (\<lambda>ic. case filter (\<lambda>cc. ContainerName cc = ContainerName ic) ccs of
                  [] \<Rightarrow> ic
                | m # ms \<Rightarrow> ic\<lparr>Resources := Resources (last (m # ms))\<rparr>) ics,
      found \<or> (\<exists>cc\<in>set ccs. \<exists>ic\<in>set ics. ContainerName cc = ContainerName ic))"
proof (induction ccs arbitrary: ics found)
  case Nil
  show ?case by simp
next
  case (Cons cc ccs)
  show ?case
    apply (simp add: scan_containers_eq Cons.IH)
    apply (auto simp: comp_def split: list.splits if_splits)
    done
qed

section \<open>The paths of createPatch\<close>

lemma applyOverrides_absent:
  assumes "Annotations (ObjectMeta pod) (annotation @ ''.podDefinition'') = None"
  shows "applyOverrides ext annotation pod = Inr None"
  using assms by (simp add: applyOverrides_def)

lemma applyOverrides_malformed:
  assumes "Annotations (ObjectMeta pod) (annotation @ ''.podDefinition'') = Some doc"
    and "UnmarshalConfig ext doc = Inl e"
  shows "applyOverrides ext annotation pod = Inl e"
  using assms by (simp add: applyOverrides_def)

lemma applyOverrides_no_pod:
  assumes "Annotations (ObjectMeta pod) (annotation @ ''.podDefinition'') = Some doc"
    and "UnmarshalConfig ext doc = Inr c"
    and "\<forall>q\<in>set (Pods c). Name (ObjectMeta q) \<noteq> Name (ObjectMeta pod)"
  shows "applyOverrides ext annotation pod = Inr None"
proof -
  obtain cpod where "find_cpod (Name (ObjectMeta pod)) (Pods c) zeroPod = (cpod, False)"
    using find_cpod_miss [OF assms(3)] by blast
  then show ?thesis
    using assms(1,2) by (simp add: applyOverrides_def)
qed

lemma applyOverrides_matched:
  assumes "Annotations (ObjectMeta pod) (annotation @ ''.podDefinition'') = Some doc"
    and "UnmarshalConfig ext doc = Inr c"
    and "find_cpod (Name (ObjectMeta pod)) (Pods c) zeroPod = (cpod, True)"
  shows "applyOverrides ext annotation pod =
           Inr (if \<exists>cc\<in>set (Containers (Spec cpod)). \<exists>ic\<in>set (Containers (Spec pod)).
                     ContainerName cc = ContainerName ic
                then Some (pod\<lparr>Spec := (Spec pod)\<lparr>Containers :=
                       map (\<lambda>ic. case filter (\<lambda>cc. ContainerName cc = ContainerName ic)
                                        (Containers (Spec cpod)) of
                                   [] \<Rightarrow> ic
                                 | m # ms \<Rightarrow> ic\<lparr>Resources := Resources (last (m # ms))\<rparr>)
                           (Containers (Spec pod))\<rparr>\<rparr>)
                else None)"
  using assms by (simp add: applyOverrides_def override_containers_eq)

text \<open>The response of \<^verbatim>\<open>mutate\<close> once the request is there and its object is a pod.\<close>

lemma mutate_decoded:
  assumes "Request ar = Some req" and "UnmarshalPod ext (ObjectRaw req) = Inr pod"
  shows "mutate ext annotation ar =
           (if Namespace (ObjectMeta pod) \<in> set ignoredNamespaces
            then Done (zeroResponse\<lparr>Allowed := True\<rparr>)
            else (case createPatch ext annotation pod of
                    Inl err \<Rightarrow> Done (zeroResponse\<lparr>Result := Some \<lparr>Message = err\<rparr>\<rparr>)
                  | Inr patchBytes \<Rightarrow>
                      Done (zeroResponse\<lparr>Allowed := True, Patch := patchBytes,
                              PatchType := Some PatchTypeJSONPatch\<rparr>)))"
  using assms by (simp add: mutate_def mutationRequired_iff)

lemma createPatch_no_container:
  assumes "Annotations (ObjectMeta pod) (annotation @ ''.podDefinition'') = Some doc"
    and "UnmarshalConfig ext doc = Inr c"
    and "find_cpod (Name (ObjectMeta pod)) (Pods c) zeroPod = (cpod, True)"
    and "\<forall>cc\<in>set (Containers (Spec cpod)). \<forall>ic\<in>set (Containers (Spec pod)).
           ContainerName cc \<noteq> ContainerName ic"
  shows "createPatch ext annotation pod = Inr []"
proof -
  from assms(4)
  have "\<not> (\<exists>cc\<in>set (Containers (Spec cpod)). \<exists>ic\<in>set (Containers (Spec pod)).
              ContainerName cc = ContainerName ic)"
    by blast
  then have "applyOverrides ext annotation pod = Inr None"
    unfolding applyOverrides_matched [OF assms(1-3)] by simp
  then show ?thesis
    by (simp add: createPatch_def)
qed

lemma createPatch_no_pod:
  assumes "Annotations (ObjectMeta pod) (annotation @ ''.podDefinition'') = Some doc"
    and "UnmarshalConfig ext doc = Inr c"
    and "\<forall>q\<in>set (Pods c). Name (ObjectMeta q) \<noteq> Name (ObjectMeta pod)"
  shows "createPatch ext annotation pod = Inr []"
  using applyOverrides_no_pod [OF assms] by (simp add: createPatch_def)

lemma createPatch_malformed:
  assumes "Annotations (ObjectMeta pod) (annotation @ ''.podDefinition'') = Some doc"
    and "UnmarshalConfig ext doc = Inl e"
  shows "createPatch ext annotation pod = Inl e"
  using applyOverrides_malformed [OF assms] by (simp add: createPatch_def)

lemma serve_decoded:
  assumes "Body r = Some b" and "b \<noteq> []" and "ContentType r = ''application/json''"
    and "Decode ext b = (ar, err)"
  shows "serve ext annotation r =
           (case (case err of
                    Some e \<Rightarrow> Done (zeroResponse\<lparr>Result := Some \<lparr>Message = e\<rparr>\<rparr>)
                  | None \<Rightarrow> mutate ext annotation ar) of
              NilPanic \<Rightarrow> NilPanic
            | Done admissionResponse \<Rightarrow>
                Done (Review (zeroReview\<lparr>Response :=
                  Some (case Request ar of
                          None \<Rightarrow> admissionResponse
                        | Some req \<Rightarrow> admissionResponse\<lparr>RespUID := UID req\<rparr>)\<rparr>)))"
  using assms by (simp add: serve_def)

lemma mutate_total: "(mutate ext annotation ar = NilPanic) = (Request ar = None)"
  by (simp add: mutate_def split: option.splits sum.splits)

section \<open>The table at the examples\<close>

lemma table_override: "UnmarshalConfig tableExt overrideDoc = Inr overrideConfig"
  by (simp add: tableExt_def)

lemma table_ab: "UnmarshalConfig tableExt abDoc = Inr abConfig"
  by (simp add: tableExt_def abDoc_def overrideDoc_def)

lemma table_not_json:
  "UnmarshalConfig tableExt ''not json'' = Inl ''invalid character 'o' in literal null (expecting 'u')''"
  by (simp add: tableExt_def abDoc_def overrideDoc_def)

lemmas text_defs =
  plainText_def malformedText_def systemText_def podCText_def sidecarText_def podText_def
  jsonString_def defaultAnnotation_def

lemma table_plain: "UnmarshalPod tableExt plainText = Inr plainPod"
  by (simp add: tableExt_def)

lemma table_malformed: "UnmarshalPod tableExt malformedText = Inr malformedPod"
  by (simp add: tableExt_def text_defs)

lemma table_system: "UnmarshalPod tableExt systemText = Inr systemPod"
  by (simp add: tableExt_def text_defs)

lemma table_podC: "UnmarshalPod tableExt podCText = Inr podC"
  by (simp add: tableExt_def text_defs)

lemma table_sidecar: "UnmarshalPod tableExt sidecarText = Inr sidecarPod"
  by (simp add: tableExt_def text_defs)

lemma table_plainBody: "Decode tableExt plainBody = (mkReview ''abc'' ''default'' plainText, None)"
  by (simp add: tableExt_def)

lemma table_noRequestBody: "Decode tableExt noRequestBody = (zeroReview, None)"
  by (simp add: tableExt_def plainBody_def noRequestBody_def)

lemma table_truncatedBody:
  "Decode tableExt truncatedBody =
     (zeroReview, Some ''couldn't get version/kind; json parse error: unexpected end of JSON input'')"
  by (simp add: tableExt_def plainBody_def noRequestBody_def truncatedBody_def)

lemma table_bb: "UnmarshalConfig bbExt bbDoc = Inr bbConfig"
  by (simp add: bbExt_def)

lemma overrideConfig_entry:
  "find_cpod ''web-2'' (Pods overrideConfig) zeroPod = (hd (Pods overrideConfig), True)"
  by (simp add: overrideConfig_def)

text \<open>\<^verbatim>\<open>createPatch\<close> and \<^verbatim>\<open>mutate\<close> at the pods without and with a malformed annotation.\<close>

lemma plainPod_createPatch: "createPatch tableExt defaultAnnotation plainPod = Inr []"
proof -
  have "Annotations (ObjectMeta plainPod) (defaultAnnotation @ ''.podDefinition'') = None"
    by (simp add: plainPod_def mkPod_def)
  then have "applyOverrides tableExt defaultAnnotation plainPod = Inr None"
    by (rule applyOverrides_absent)
  then show ?thesis
    by (simp add: createPatch_def)
qed

lemma malformedPod_createPatch:
  "createPatch tableExt defaultAnnotation malformedPod
     = Inl ''invalid character 'o' in literal null (expecting 'u')''"
proof -
  have "Annotations (ObjectMeta malformedPod) (defaultAnnotation @ ''.podDefinition'')
          = Some ''not json''"
    by (simp add: malformedPod_def mkPod_def)
  then have "applyOverrides tableExt defaultAnnotation malformedPod
               = Inl ''invalid character 'o' in literal null (expecting 'u')''"
    using table_not_json by (rule applyOverrides_malformed)
  then show ?thesis
    by (simp add: createPatch_def)
qed

lemma malformedPod_mutate:
  "mutate tableExt defaultAnnotation (mkReview uid ''default'' malformedText) =
     Done \<lparr>RespUID = [], Allowed = False,
           Result = Some \<lparr>Message = ''invalid character 'o' in literal null (expecting 'u')''\<rparr>,
           Patch = [], PatchType = None\<rparr>"
proof -
  have r: "Request (mkReview uid ''default'' malformedText)
             = Some (mkRequest uid ''default'' malformedText)"
    by (simp add: mkReview_def)
  have u: "UnmarshalPod tableExt (ObjectRaw (mkRequest uid ''default'' malformedText))
             = Inr malformedPod"
    by (simp add: mkRequest_def table_malformed)
  have m: "Namespace (ObjectMeta malformedPod) \<notin> set ignoredNamespaces"
    by (simp add: malformedPod_def mkPod_def ignoredNamespaces_def)
  show ?thesis
    using m by (simp add: mutate_decoded [OF r u] malformedPod_createPatch zeroResponse_def)
qed

section \<open>Claims\<close>

text \<open>
  C1. Once the annotation is decoded and an override entry \<^verbatim>\<open>cpod\<close> is selected, one pass
  for an override container replaces the resources of every container of its name (none,
  one or several) with the override's resources and changes nothing else; after all passes
  every container of the working copy whose name is that of an override container carries
  the resources of the last override container of that name, the other containers are as
  they were, and this working copy is what \<^verbatim>\<open>createPatch\<close> diffs against the pod. When no
  container name equals an override container's name, \<^verbatim>\<open>createPatch\<close> returns the empty
  patch with no error.
\<close>

theorem createPatch_overrides_every_match:
  "scan_containers cc ics found =
     (map (\<lambda>ic. if ContainerName cc = ContainerName ic
                then ic\<lparr>Resources := Resources cc\<rparr> else ic) ics,
      found \<or> (\<exists>ic\<in>set ics. ContainerName cc = ContainerName ic))
   \<and> (Annotations (ObjectMeta pod) (annotation @ ''.podDefinition'') = Some doc
        \<and> UnmarshalConfig ext doc = Inr c
        \<and> find_cpod (Name (ObjectMeta pod)) (Pods c) zeroPod = (cpod, True)
      \<longrightarrow> createPatch ext annotation pod =
            (if \<exists>cc\<in>set (Containers (Spec cpod)). \<exists>ic\<in>set (Containers (Spec pod)).
                  ContainerName cc = ContainerName ic
             then diffPods ext pod
                    (pod\<lparr>Spec := (Spec pod)\<lparr>Containers :=
                       map (\<lambda>ic. case filter (\<lambda>cc. ContainerName cc = ContainerName ic)
                                        (Containers (Spec cpod)) of
                                   [] \<Rightarrow> ic
                                 | m # ms \<Rightarrow> ic\<lparr>Resources := Resources (last (m # ms))\<rparr>)
                           (Containers (Spec pod))\<rparr>\<rparr>)
             else Inr []))"
proof (intro conjI impI)
  show "scan_containers cc ics found =
     (map (\<lambda>ic. if ContainerName cc = ContainerName ic
                then ic\<lparr>Resources := Resources cc\<rparr> else ic) ics,
      found \<or> (\<exists>ic\<in>set ics. ContainerName cc = ContainerName ic))"
    by (rule scan_containers_eq)
next
  assume h: "Annotations (ObjectMeta pod) (annotation @ ''.podDefinition'') = Some doc
        \<and> UnmarshalConfig ext doc = Inr c
        \<and> find_cpod (Name (ObjectMeta pod)) (Pods c) zeroPod = (cpod, True)"
  then have a: "Annotations (ObjectMeta pod) (annotation @ ''.podDefinition'') = Some doc"
    and d: "UnmarshalConfig ext doc = Inr c"
    and f: "find_cpod (Name (ObjectMeta pod)) (Pods c) zeroPod = (cpod, True)"
    by simp_all
  show "createPatch ext annotation pod =
            (if \<exists>cc\<in>set (Containers (Spec cpod)). \<exists>ic\<in>set (Containers (Spec pod)).
                  ContainerName cc = ContainerName ic
             then diffPods ext pod
                    (pod\<lparr>Spec := (Spec pod)\<lparr>Containers :=
                       map (\<lambda>ic. case filter (\<lambda>cc. ContainerName cc = ContainerName ic)
                                        (Containers (Spec cpod)) of
                                   [] \<Rightarrow> ic
                                 | m # ms \<Rightarrow> ic\<lparr>Resources := Resources (last (m # ms))\<rparr>)
                           (Containers (Spec pod))\<rparr>\<rparr>)
             else Inr [])"
    unfolding createPatch_def applyOverrides_matched [OF a d f] by simp
qed

theorem createPatch_overrides_every_match_witness:
  "createPatch tableExt defaultAnnotation dupPod =
     diffPods tableExt dupPod
       (mkPod ''web-2'' ''default'' (Some overrideDoc)
          [solace\<lparr>Resources := newResources\<rparr>, sidecar,
           solace\<lparr>Image := ''app:2'', Resources := newResources\<rparr>])
   \<and> createPatch tableExt defaultAnnotation sidecarPod = Inr []"
proof
  have a: "Annotations (ObjectMeta dupPod) (defaultAnnotation @ ''.podDefinition'') = Some overrideDoc"
    by (simp add: dupPod_def mkPod_def)
  have d: "UnmarshalConfig tableExt overrideDoc = Inr overrideConfig"
    by (rule table_override)
  have f: "find_cpod (Name (ObjectMeta dupPod)) (Pods overrideConfig) zeroPod
             = (hd (Pods overrideConfig), True)"
    by (simp add: dupPod_def mkPod_def overrideConfig_entry)
  from createPatch_overrides_every_match
         [where pod = dupPod and annotation = defaultAnnotation and ext = tableExt
            and doc = overrideDoc and c = overrideConfig and cpod = "hd (Pods overrideConfig)"]
       a d f
  show "createPatch tableExt defaultAnnotation dupPod =
     diffPods tableExt dupPod
       (mkPod ''web-2'' ''default'' (Some overrideDoc)
          [solace\<lparr>Resources := newResources\<rparr>, sidecar,
           solace\<lparr>Image := ''app:2'', Resources := newResources\<rparr>])"
    by (simp add: dupPod_def mkPod_def overrideConfig_def solace_def sidecar_def)
next
  have a: "Annotations (ObjectMeta sidecarPod) (defaultAnnotation @ ''.podDefinition'') = Some overrideDoc"
    by (simp add: sidecarPod_def mkPod_def)
  have d: "UnmarshalConfig tableExt overrideDoc = Inr overrideConfig"
    by (rule table_override)
  have f: "find_cpod (Name (ObjectMeta sidecarPod)) (Pods overrideConfig) zeroPod
             = (hd (Pods overrideConfig), True)"
    by (simp add: sidecarPod_def mkPod_def overrideConfig_entry)
  from createPatch_overrides_every_match
         [where pod = sidecarPod and annotation = defaultAnnotation and ext = tableExt
            and doc = overrideDoc and c = overrideConfig and cpod = "hd (Pods overrideConfig)"]
       a d f
  show "createPatch tableExt defaultAnnotation sidecarPod = Inr []"
    by (simp add: sidecarPod_def mkPod_def overrideConfig_def solace_def sidecar_def)
qed

text \<open>
  C2. When the annotation decodes, \<^verbatim>\<open>createPatch\<close> works with the first override entry
  whose name is exactly the pod's name. If the entries are \<^verbatim>\<open>pre\<close>, then \<^verbatim>\<open>p\<close>, then
  \<^verbatim>\<open>post\<close>, where no entry of \<^verbatim>\<open>pre\<close> has the pod's name and \<^verbatim>\<open>p\<close> has it, the search
  ends with \<^verbatim>\<open>cpod = p\<close> and the result of \<^verbatim>\<open>createPatch\<close> is the one the containers of
  \<^verbatim>\<open>p\<close> give, whatever \<^verbatim>\<open>post\<close> holds: the diff of the pod against the working copy
  overridden from \<^verbatim>\<open>p\<close>, or the empty patch with no error when \<^verbatim>\<open>p\<close> names none of the
  pod's containers. If no entry has the pod's name, the search ends with
  \<^verbatim>\<open>found = false\<close> and \<^verbatim>\<open>createPatch\<close> returns the empty patch with no error (the
  code's form of "no mutation"); so it does for entries named \<^verbatim>\<open>a\<close> and \<^verbatim>\<open>b\<close> and a
  pod named \<^verbatim>\<open>c\<close>.
\<close>

theorem createPatch_first_pod_match:
  "Annotations (ObjectMeta pod) (annotation @ ''.podDefinition'') = Some doc
     \<and> UnmarshalConfig ext doc = Inr c
   \<longrightarrow> (Pods c = pre @ p # post
          \<and> (\<forall>q\<in>set pre. Name (ObjectMeta q) \<noteq> Name (ObjectMeta pod))
          \<and> Name (ObjectMeta p) = Name (ObjectMeta pod)
        \<longrightarrow> find_cpod (Name (ObjectMeta pod)) (Pods c) zeroPod = (p, True)
            \<and> createPatch ext annotation pod =
                (if \<exists>cc\<in>set (Containers (Spec p)). \<exists>ic\<in>set (Containers (Spec pod)).
                      ContainerName cc = ContainerName ic
                 then diffPods ext pod
                        (pod\<lparr>Spec := (Spec pod)\<lparr>Containers :=
                           map (\<lambda>ic. case filter (\<lambda>cc. ContainerName cc = ContainerName ic)
                                            (Containers (Spec p)) of
                                       [] \<Rightarrow> ic
                                     | m # ms \<Rightarrow> ic\<lparr>Resources := Resources (last (m # ms))\<rparr>)
                               (Containers (Spec pod))\<rparr>\<rparr>)
                 else Inr []))
     \<and> ((\<forall>q\<in>set (Pods c). Name (ObjectMeta q) \<noteq> Name (ObjectMeta pod))
        \<longrightarrow> (\<exists>cpod. find_cpod (Name (ObjectMeta pod)) (Pods c) zeroPod = (cpod, False))
            \<and> createPatch ext annotation pod = Inr [])"
proof (intro impI)
  assume h: "Annotations (ObjectMeta pod) (annotation @ ''.podDefinition'') = Some doc
     \<and> UnmarshalConfig ext doc = Inr c"
  then have a: "Annotations (ObjectMeta pod) (annotation @ ''.podDefinition'') = Some doc"
    and d: "UnmarshalConfig ext doc = Inr c"
    by simp_all
  have first: "find_cpod (Name (ObjectMeta pod)) (Pods c) zeroPod = (p, True)
            \<and> createPatch ext annotation pod =
                (if \<exists>cc\<in>set (Containers (Spec p)). \<exists>ic\<in>set (Containers (Spec pod)).
                      ContainerName cc = ContainerName ic
                 then diffPods ext pod
                        (pod\<lparr>Spec := (Spec pod)\<lparr>Containers :=
                           map (\<lambda>ic. case filter (\<lambda>cc. ContainerName cc = ContainerName ic)
                                            (Containers (Spec p)) of
                                       [] \<Rightarrow> ic
                                     | m # ms \<Rightarrow> ic\<lparr>Resources := Resources (last (m # ms))\<rparr>)
                               (Containers (Spec pod))\<rparr>\<rparr>)
                 else Inr [])"
    if g: "Pods c = pre @ p # post
          \<and> (\<forall>q\<in>set pre. Name (ObjectMeta q) \<noteq> Name (ObjectMeta pod))
          \<and> Name (ObjectMeta p) = Name (ObjectMeta pod)"
  proof -
    from g have f: "find_cpod (Name (ObjectMeta pod)) (Pods c) zeroPod = (p, True)"
      by (simp add: find_cpod_first)
    show ?thesis
      unfolding createPatch_def applyOverrides_matched [OF a d f] using f by simp
  qed
  have none: "(\<exists>cpod. find_cpod (Name (ObjectMeta pod)) (Pods c) zeroPod = (cpod, False))
            \<and> createPatch ext annotation pod = Inr []"
    if n: "\<forall>q\<in>set (Pods c). Name (ObjectMeta q) \<noteq> Name (ObjectMeta pod)"
    using find_cpod_miss [OF n] createPatch_no_pod [OF a d n] by simp
  from first none
  show "(Pods c = pre @ p # post
          \<and> (\<forall>q\<in>set pre. Name (ObjectMeta q) \<noteq> Name (ObjectMeta pod))
          \<and> Name (ObjectMeta p) = Name (ObjectMeta pod)
        \<longrightarrow> find_cpod (Name (ObjectMeta pod)) (Pods c) zeroPod = (p, True)
            \<and> createPatch ext annotation pod =
                (if \<exists>cc\<in>set (Containers (Spec p)). \<exists>ic\<in>set (Containers (Spec pod)).
                      ContainerName cc = ContainerName ic
                 then diffPods ext pod
                        (pod\<lparr>Spec := (Spec pod)\<lparr>Containers :=
                           map (\<lambda>ic. case filter (\<lambda>cc. ContainerName cc = ContainerName ic)
                                            (Containers (Spec p)) of
                                       [] \<Rightarrow> ic
                                     | m # ms \<Rightarrow> ic\<lparr>Resources := Resources (last (m # ms))\<rparr>)
                               (Containers (Spec pod))\<rparr>\<rparr>)
                 else Inr []))
     \<and> ((\<forall>q\<in>set (Pods c). Name (ObjectMeta q) \<noteq> Name (ObjectMeta pod))
        \<longrightarrow> (\<exists>cpod. find_cpod (Name (ObjectMeta pod)) (Pods c) zeroPod = (cpod, False))
            \<and> createPatch ext annotation pod = Inr [])"
    by blast
qed

text \<open>
  At the pod \<^verbatim>\<open>b\<close> with the container \<^verbatim>\<open>solace\<close>, the first entry named \<^verbatim>\<open>b\<close> names no
  container and the second one names \<^verbatim>\<open>solace\<close>: the first is selected, so nothing matches
  and the patch is empty. At the pod \<^verbatim>\<open>c\<close> no entry is selected.
\<close>

theorem createPatch_first_pod_match_witness:
  "find_cpod ''b'' [namedPod ''a'', namedPod ''b'', bSolacePod] zeroPod = (namedPod ''b'', True)
   \<and> createPatch bbExt defaultAnnotation podB = Inr []
   \<and> createPatch tableExt defaultAnnotation podC = Inr []"
proof -
  have a: "Annotations (ObjectMeta podB) (defaultAnnotation @ ''.podDefinition'') = Some bbDoc"
    by (simp add: podB_def mkPod_def)
  have l: "Pods bbConfig = [namedPod ''a''] @ namedPod ''b'' # [bSolacePod]"
    by (simp add: bbConfig_def)
  have n: "\<forall>q\<in>set [namedPod ''a'']. Name (ObjectMeta q) \<noteq> Name (ObjectMeta podB)"
    by (simp add: namedPod_def zeroPod_def podB_def mkPod_def)
  have e: "Name (ObjectMeta (namedPod ''b'')) = Name (ObjectMeta podB)"
    by (simp add: namedPod_def zeroPod_def podB_def mkPod_def)
  have k: "Containers (Spec (namedPod ''b'')) = []"
    by (simp add: namedPod_def zeroPod_def)
  from createPatch_first_pod_match
         [where pod = podB and annotation = defaultAnnotation and doc = bbDoc and ext = bbExt
            and c = bbConfig and pre = "[namedPod ''a'']" and p = "namedPod ''b''"
            and post = "[bSolacePod]"]
       a table_bb l n e
  have "find_cpod (Name (ObjectMeta podB)) (Pods bbConfig) zeroPod = (namedPod ''b'', True)
        \<and> createPatch bbExt defaultAnnotation podB = Inr []"
    by (simp add: k)
  then have first: "find_cpod ''b'' [namedPod ''a'', namedPod ''b'', bSolacePod] zeroPod
                      = (namedPod ''b'', True)
                    \<and> createPatch bbExt defaultAnnotation podB = Inr []"
    by (simp add: bbConfig_def podB_def mkPod_def)
  have a': "Annotations (ObjectMeta podC) (defaultAnnotation @ ''.podDefinition'') = Some abDoc"
    by (simp add: podC_def mkPod_def)
  have n': "\<forall>q\<in>set (Pods abConfig). Name (ObjectMeta q) \<noteq> Name (ObjectMeta podC)"
    by (simp add: abConfig_def namedPod_def zeroPod_def podC_def mkPod_def)
  from createPatch_first_pod_match
         [where pod = podC and annotation = defaultAnnotation and doc = abDoc
            and ext = tableExt and c = abConfig] a' table_ab n'
  have "createPatch tableExt defaultAnnotation podC = Inr []"
    by simp
  with first show ?thesis
    by simp
qed

text \<open>
  C3. \<^verbatim>\<open>mutationRequired\<close> is a total function that answers false exactly when the
  namespace is in the list; the list holds \<^verbatim>\<open>kube-system\<close> and \<^verbatim>\<open>kube-public\<close>; and for
  a pod in one of them \<^verbatim>\<open>mutate\<close> answers \<^verbatim>\<open>Allowed: true\<close> with no patch, no patch
  type and no message, whatever the pod's annotations hold.
\<close>

theorem mutate_skips_ignored_namespaces:
  "mutationRequired ignoredList metadata = (Namespace metadata \<notin> set ignoredList)
   \<and> set ignoredNamespaces = {''kube-system'', ''kube-public''}
   \<and> (Request ar = Some req \<and> UnmarshalPod ext (ObjectRaw req) = Inr pod
        \<and> Namespace (ObjectMeta pod) \<in> set ignoredNamespaces
      \<longrightarrow> mutate ext annotation ar =
            Done \<lparr>RespUID = [], Allowed = True, Result = None, Patch = [], PatchType = None\<rparr>)"
proof (intro conjI impI)
  show "mutationRequired ignoredList metadata = (Namespace metadata \<notin> set ignoredList)"
    by (rule mutationRequired_iff)
  show "set ignoredNamespaces = {''kube-system'', ''kube-public''}"
    by (simp add: ignoredNamespaces_def)
next
  assume "Request ar = Some req \<and> UnmarshalPod ext (ObjectRaw req) = Inr pod
        \<and> Namespace (ObjectMeta pod) \<in> set ignoredNamespaces"
  then show "mutate ext annotation ar =
            Done \<lparr>RespUID = [], Allowed = True, Result = None, Patch = [], PatchType = None\<rparr>"
    by (simp add: mutate_decoded zeroResponse_def)
qed

theorem mutate_skips_ignored_namespaces_witness:
  "mutationRequired ignoredNamespaces (ObjectMeta systemPod) = False
   \<and> mutate tableExt defaultAnnotation (mkReview ''u-1'' ''kube-system'' systemText) =
       Done \<lparr>RespUID = [], Allowed = True, Result = None, Patch = [], PatchType = None\<rparr>"
proof -
  have r: "Request (mkReview ''u-1'' ''kube-system'' systemText)
             = Some (mkRequest ''u-1'' ''kube-system'' systemText)"
    by (simp add: mkReview_def)
  have u: "UnmarshalPod tableExt (ObjectRaw (mkRequest ''u-1'' ''kube-system'' systemText))
             = Inr systemPod"
    by (simp add: mkRequest_def table_system)
  have m: "Namespace (ObjectMeta systemPod) \<in> set ignoredNamespaces"
    by (simp add: systemPod_def mkPod_def ignoredNamespaces_def)
  from mutate_skips_ignored_namespaces
         [where ar = "mkReview ''u-1'' ''kube-system'' systemText" and ext = tableExt
            and annotation = defaultAnnotation and pod = systemPod
            and req = "mkRequest ''u-1'' ''kube-system'' systemText"
            and ignoredList = ignoredNamespaces and metadata = "ObjectMeta systemPod"] r u m
  show ?thesis
    by simp
qed

text \<open>
  C4. When the annotation is present and \<^verbatim>\<open>json.Unmarshal\<close> rejects it with the error
  \<^verbatim>\<open>e\<close>, \<^verbatim>\<open>createPatch\<close> returns that very error (neither the empty patch nor a panic),
  and \<^verbatim>\<open>mutate\<close>, for a pod outside the ignored namespaces, answers with \<^verbatim>\<open>e\<close> as the
  message of its \<^verbatim>\<open>Result\<close>; the diagnostic is as non-empty as the decoder's.
\<close>

theorem createPatch_malformed_annotation:
  "Annotations (ObjectMeta pod) (annotation @ ''.podDefinition'') = Some doc
     \<and> UnmarshalConfig ext doc = Inl e
   \<longrightarrow> createPatch ext annotation pod = Inl e
       \<and> (Request ar = Some req \<and> UnmarshalPod ext (ObjectRaw req) = Inr pod
            \<and> Namespace (ObjectMeta pod) \<notin> set ignoredNamespaces
          \<longrightarrow> mutate ext annotation ar =
                Done \<lparr>RespUID = [], Allowed = False, Result = Some \<lparr>Message = e\<rparr>,
                      Patch = [], PatchType = None\<rparr>)"
proof (intro impI)
  assume h: "Annotations (ObjectMeta pod) (annotation @ ''.podDefinition'') = Some doc
     \<and> UnmarshalConfig ext doc = Inl e"
  then have "applyOverrides ext annotation pod = Inl e"
    by (simp add: applyOverrides_malformed)
  then have c: "createPatch ext annotation pod = Inl e"
    by (simp add: createPatch_def)
  show "createPatch ext annotation pod = Inl e
       \<and> (Request ar = Some req \<and> UnmarshalPod ext (ObjectRaw req) = Inr pod
            \<and> Namespace (ObjectMeta pod) \<notin> set ignoredNamespaces
          \<longrightarrow> mutate ext annotation ar =
                Done \<lparr>RespUID = [], Allowed = False, Result = Some \<lparr>Message = e\<rparr>,
                      Patch = [], PatchType = None\<rparr>)"
    using c by (simp add: mutate_decoded zeroResponse_def)
qed

theorem createPatch_malformed_annotation_witness:
  "createPatch tableExt defaultAnnotation malformedPod
     = Inl ''invalid character 'o' in literal null (expecting 'u')''
   \<and> mutate tableExt defaultAnnotation (mkReview ''u-2'' ''default'' malformedText) =
       Done \<lparr>RespUID = [], Allowed = False,
             Result = Some \<lparr>Message = ''invalid character 'o' in literal null (expecting 'u')''\<rparr>,
             Patch = [], PatchType = None\<rparr>
   \<and> ''invalid character 'o' in literal null (expecting 'u')'' \<noteq> []"
proof -
  have a: "Annotations (ObjectMeta malformedPod) (defaultAnnotation @ ''.podDefinition'')
             = Some ''not json''"
    by (simp add: malformedPod_def mkPod_def)
  have r: "Request (mkReview ''u-2'' ''default'' malformedText)
             = Some (mkRequest ''u-2'' ''default'' malformedText)"
    by (simp add: mkReview_def)
  have u: "UnmarshalPod tableExt (ObjectRaw (mkRequest ''u-2'' ''default'' malformedText))
             = Inr malformedPod"
    by (simp add: mkRequest_def table_malformed)
  have m: "Namespace (ObjectMeta malformedPod) \<notin> set ignoredNamespaces"
    by (simp add: malformedPod_def mkPod_def ignoredNamespaces_def)
  from createPatch_malformed_annotation
         [where pod = malformedPod and annotation = defaultAnnotation and doc = "''not json''"
            and ext = tableExt and e = "''invalid character 'o' in literal null (expecting 'u')''"
            and ar = "mkReview ''u-2'' ''default'' malformedText"
            and req = "mkRequest ''u-2'' ''default'' malformedText"]
       a table_not_json r u m
  show ?thesis
    by simp
qed

text \<open>
  C5, evaluated at a pod in \<^verbatim>\<open>default\<close> without the annotation. \<^verbatim>\<open>createPatch\<close> takes the
  path that logs "skipping pod" and returns \<^verbatim>\<open>[]byte{}, nil\<close>; \<^verbatim>\<open>mutate\<close> then builds its last
  response all the same: \<^verbatim>\<open>Allowed: true\<close>, the empty patch, and the patch type
  \<^verbatim>\<open>JSONPatch\<close> attached to it.
\<close>

theorem mutate_no_annotation_attaches_patch_type:
  "createPatch tableExt defaultAnnotation plainPod = Inr []
   \<and> mutate tableExt defaultAnnotation (mkReview ''u-3'' ''default'' plainText) =
       Done \<lparr>RespUID = [], Allowed = True, Result = None, Patch = [],
             PatchType = Some ''JSONPatch''\<rparr>"
proof
  have "Annotations (ObjectMeta plainPod) (defaultAnnotation @ ''.podDefinition'') = None"
    by (simp add: plainPod_def mkPod_def)
  then have "applyOverrides tableExt defaultAnnotation plainPod = Inr None"
    by (rule applyOverrides_absent)
  then show c: "createPatch tableExt defaultAnnotation plainPod = Inr []"
    by (simp add: createPatch_def)
  have r: "Request (mkReview ''u-3'' ''default'' plainText)
             = Some (mkRequest ''u-3'' ''default'' plainText)"
    by (simp add: mkReview_def)
  have u: "UnmarshalPod tableExt (ObjectRaw (mkRequest ''u-3'' ''default'' plainText))
             = Inr plainPod"
    by (simp add: mkRequest_def table_plain)
  have m: "Namespace (ObjectMeta plainPod) \<notin> set ignoredNamespaces"
    by (simp add: plainPod_def mkPod_def ignoredNamespaces_def)
  show "mutate tableExt defaultAnnotation (mkReview ''u-3'' ''default'' plainText) =
       Done \<lparr>RespUID = [], Allowed = True, Result = None, Patch = [],
             PatchType = Some ''JSONPatch''\<rparr>"
    using m c by (simp add: mutate_decoded [OF r u] zeroResponse_def PatchTypeJSONPatch_def)
qed

text \<open>
  C6 as stated fails: the envelope is there, its object decodes to a pod in \<^verbatim>\<open>default\<close>,
  the pod's annotation is not JSON, and the response has \<^verbatim>\<open>Allowed\<close> unset.
\<close>

theorem mutate_allowed_counterexample:
  "Request (mkReview ''u-4'' ''default'' malformedText)
     = Some (mkRequest ''u-4'' ''default'' malformedText)
   \<and> UnmarshalPod tableExt (ObjectRaw (mkRequest ''u-4'' ''default'' malformedText))
       = Inr malformedPod
   \<and> mutate tableExt defaultAnnotation (mkReview ''u-4'' ''default'' malformedText) =
       Done \<lparr>RespUID = [], Allowed = False,
             Result = Some \<lparr>Message = ''invalid character 'o' in literal null (expecting 'u')''\<rparr>,
             Patch = [], PatchType = None\<rparr>"
proof (intro conjI)
  show "Request (mkReview ''u-4'' ''default'' malformedText)
          = Some (mkRequest ''u-4'' ''default'' malformedText)"
    by (simp add: mkReview_def)
  show "UnmarshalPod tableExt (ObjectRaw (mkRequest ''u-4'' ''default'' malformedText))
          = Inr malformedPod"
    by (simp add: mkRequest_def table_malformed)
  show "mutate tableExt defaultAnnotation (mkReview ''u-4'' ''default'' malformedText) =
       Done \<lparr>RespUID = [], Allowed = False,
             Result = Some \<lparr>Message = ''invalid character 'o' in literal null (expecting 'u')''\<rparr>,
             Patch = [], PatchType = None\<rparr>"
    by (rule malformedPod_mutate)
qed

text \<open>
  C6, amended. For every request whose object decodes to a pod, \<^verbatim>\<open>mutate\<close> returns a
  response, and \<^verbatim>\<open>Allowed\<close> is true exactly when the pod is in an ignored namespace or
  \<^verbatim>\<open>createPatch\<close> returns without error; otherwise the response carries the error of
  \<^verbatim>\<open>createPatch\<close> as its message.
\<close>

theorem mutate_allowed_iff:
  "Request ar = Some req \<and> UnmarshalPod ext (ObjectRaw req) = Inr pod
   \<longrightarrow> (\<exists>resp. mutate ext annotation ar = Done resp
          \<and> Allowed resp = (Namespace (ObjectMeta pod) \<in> set ignoredNamespaces
                             \<or> (\<exists>patchBytes. createPatch ext annotation pod = Inr patchBytes))
          \<and> (Allowed resp \<or> (\<exists>err. createPatch ext annotation pod = Inl err
                                    \<and> Result resp = Some \<lparr>Message = err\<rparr>)))"
proof
  assume h: "Request ar = Some req \<and> UnmarshalPod ext (ObjectRaw req) = Inr pod"
  then have d: "mutate ext annotation ar =
           (if Namespace (ObjectMeta pod) \<in> set ignoredNamespaces
            then Done (zeroResponse\<lparr>Allowed := True\<rparr>)
            else (case createPatch ext annotation pod of
                    Inl err \<Rightarrow> Done (zeroResponse\<lparr>Result := Some \<lparr>Message = err\<rparr>\<rparr>)
                  | Inr patchBytes \<Rightarrow>
                      Done (zeroResponse\<lparr>Allowed := True, Patch := patchBytes,
                              PatchType := Some PatchTypeJSONPatch\<rparr>)))"
    by (simp add: mutate_decoded)
  show "\<exists>resp. mutate ext annotation ar = Done resp
          \<and> Allowed resp = (Namespace (ObjectMeta pod) \<in> set ignoredNamespaces
                             \<or> (\<exists>patchBytes. createPatch ext annotation pod = Inr patchBytes))
          \<and> (Allowed resp \<or> (\<exists>err. createPatch ext annotation pod = Inl err
                                    \<and> Result resp = Some \<lparr>Message = err\<rparr>))"
  proof (cases "Namespace (ObjectMeta pod) \<in> set ignoredNamespaces")
    case True
    with d show ?thesis by simp
  next
    case False
    show ?thesis
    proof (cases "createPatch ext annotation pod")
      case (Inl err)
      with d False show ?thesis by (simp add: zeroResponse_def)
    next
      case (Inr patchBytes)
      with d False show ?thesis by simp
    qed
  qed
qed

theorem mutate_allowed_iff_witness:
  "(\<exists>resp. mutate tableExt defaultAnnotation (mkReview ''u-3'' ''default'' plainText) = Done resp
          \<and> Allowed resp)
   \<and> (\<exists>resp. mutate tableExt defaultAnnotation (mkReview ''u-4'' ''default'' malformedText) = Done resp
          \<and> \<not> Allowed resp)"
proof
  have r: "Request (mkReview ''u-3'' ''default'' plainText)
             = Some (mkRequest ''u-3'' ''default'' plainText)"
    by (simp add: mkReview_def)
  have u: "UnmarshalPod tableExt (ObjectRaw (mkRequest ''u-3'' ''default'' plainText))
             = Inr plainPod"
    by (simp add: mkRequest_def table_plain)
  have "Annotations (ObjectMeta plainPod) (defaultAnnotation @ ''.podDefinition'') = None"
    by (simp add: plainPod_def mkPod_def)
  then have "applyOverrides tableExt defaultAnnotation plainPod = Inr None"
    by (rule applyOverrides_absent)
  then have c: "createPatch tableExt defaultAnnotation plainPod = Inr []"
    by (simp add: createPatch_def)
  from mutate_allowed_iff
         [where ar = "mkReview ''u-3'' ''default'' plainText" and ext = tableExt
            and req = "mkRequest ''u-3'' ''default'' plainText" and pod = plainPod
            and annotation = defaultAnnotation] r u c
  show "\<exists>resp. mutate tableExt defaultAnnotation (mkReview ''u-3'' ''default'' plainText) = Done resp
          \<and> Allowed resp"
    by auto
next
  have r: "Request (mkReview ''u-4'' ''default'' malformedText)
             = Some (mkRequest ''u-4'' ''default'' malformedText)"
    by (simp add: mkReview_def)
  have u: "UnmarshalPod tableExt (ObjectRaw (mkRequest ''u-4'' ''default'' malformedText))
             = Inr malformedPod"
    by (simp add: mkRequest_def table_malformed)
  have m: "Namespace (ObjectMeta malformedPod) \<notin> set ignoredNamespaces"
    by (simp add: malformedPod_def mkPod_def ignoredNamespaces_def)
  from mutate_allowed_iff
         [where ar = "mkReview ''u-4'' ''default'' malformedText" and ext = tableExt
            and req = "mkRequest ''u-4'' ''default'' malformedText" and pod = malformedPod
            and annotation = defaultAnnotation] r u m malformedPod_createPatch
  show "\<exists>resp. mutate tableExt defaultAnnotation (mkReview ''u-4'' ''default'' malformedText) = Done resp
          \<and> \<not> Allowed resp"
    by auto
qed

text \<open>
  C7 as stated fails: for the pod whose annotation is not JSON, \<^verbatim>\<open>createPatch\<close> returns
  the decode error and the response of \<^verbatim>\<open>mutate\<close> is the failure response (message set,
  \<^verbatim>\<open>Allowed\<close> unset), not the response of a request that is left alone.
\<close>

theorem mutate_no_match_counterexample:
  "createPatch tableExt defaultAnnotation malformedPod
     = Inl ''invalid character 'o' in literal null (expecting 'u')''
   \<and> mutate tableExt defaultAnnotation (mkReview ''u-5'' ''default'' malformedText)
       \<noteq> Done \<lparr>RespUID = [], Allowed = True, Result = None, Patch = [],
                PatchType = Some ''JSONPatch''\<rparr>
   \<and> mutate tableExt defaultAnnotation (mkReview ''u-5'' ''default'' malformedText)
       \<noteq> Done \<lparr>RespUID = [], Allowed = True, Result = None, Patch = [], PatchType = None\<rparr>
   \<and> mutate tableExt defaultAnnotation (mkReview ''u-5'' ''default'' malformedText)
       = Done \<lparr>RespUID = [], Allowed = False,
               Result = Some \<lparr>Message = ''invalid character 'o' in literal null (expecting 'u')''\<rparr>,
               Patch = [], PatchType = None\<rparr>"
  by (simp add: malformedPod_createPatch malformedPod_mutate)

text \<open>
  C7, amended. For a pod outside the ignored namespaces whose annotation decodes, a
  missing override entry for the pod, or an entry none of whose containers is named as a
  container of the pod, gives a response with \<^verbatim>\<open>Allowed: true\<close>, no message and an empty
  patch. An annotation that does not decode gives the failure response: \<^verbatim>\<open>Allowed\<close>
  unset, the decode error as message, an empty patch.
\<close>

theorem mutate_no_match_allowed:
  "Request ar = Some req \<and> UnmarshalPod ext (ObjectRaw req) = Inr pod
     \<and> Namespace (ObjectMeta pod) \<notin> set ignoredNamespaces
     \<and> Annotations (ObjectMeta pod) (annotation @ ''.podDefinition'') = Some doc
   \<longrightarrow> (UnmarshalConfig ext doc = Inr c
          \<and> ((\<forall>q\<in>set (Pods c). Name (ObjectMeta q) \<noteq> Name (ObjectMeta pod))
             \<or> (find_cpod (Name (ObjectMeta pod)) (Pods c) zeroPod = (cpod, True)
                \<and> (\<forall>cc\<in>set (Containers (Spec cpod)). \<forall>ic\<in>set (Containers (Spec pod)).
                      ContainerName cc \<noteq> ContainerName ic)))
        \<longrightarrow> (\<exists>resp. mutate ext annotation ar = Done resp
               \<and> Allowed resp \<and> Result resp = None \<and> Patch resp = []))
     \<and> (UnmarshalConfig ext doc = Inl e
        \<longrightarrow> (\<exists>resp. mutate ext annotation ar = Done resp
               \<and> \<not> Allowed resp \<and> Result resp = Some \<lparr>Message = e\<rparr> \<and> Patch resp = []))"
proof (intro impI conjI)
  assume h: "Request ar = Some req \<and> UnmarshalPod ext (ObjectRaw req) = Inr pod
     \<and> Namespace (ObjectMeta pod) \<notin> set ignoredNamespaces
     \<and> Annotations (ObjectMeta pod) (annotation @ ''.podDefinition'') = Some doc"
  then have r: "Request ar = Some req" and u: "UnmarshalPod ext (ObjectRaw req) = Inr pod"
    and m: "Namespace (ObjectMeta pod) \<notin> set ignoredNamespaces"
    and a: "Annotations (ObjectMeta pod) (annotation @ ''.podDefinition'') = Some doc"
    by simp_all
  {
    assume g: "UnmarshalConfig ext doc = Inr c
          \<and> ((\<forall>q\<in>set (Pods c). Name (ObjectMeta q) \<noteq> Name (ObjectMeta pod))
             \<or> (find_cpod (Name (ObjectMeta pod)) (Pods c) zeroPod = (cpod, True)
                \<and> (\<forall>cc\<in>set (Containers (Spec cpod)). \<forall>ic\<in>set (Containers (Spec pod)).
                      ContainerName cc \<noteq> ContainerName ic)))"
    then have d: "UnmarshalConfig ext doc = Inr c"
      by simp
    from g have "createPatch ext annotation pod = Inr []"
    proof (elim conjE disjE)
      assume "\<forall>q\<in>set (Pods c). Name (ObjectMeta q) \<noteq> Name (ObjectMeta pod)"
      then show ?thesis
        by (rule createPatch_no_pod [OF a d])
    next
      assume "find_cpod (Name (ObjectMeta pod)) (Pods c) zeroPod = (cpod, True)"
        and "\<forall>cc\<in>set (Containers (Spec cpod)). \<forall>ic\<in>set (Containers (Spec pod)).
               ContainerName cc \<noteq> ContainerName ic"
      then show ?thesis
        by (rule createPatch_no_container [OF a d])
    qed
    then show "\<exists>resp. mutate ext annotation ar = Done resp
               \<and> Allowed resp \<and> Result resp = None \<and> Patch resp = []"
      using m by (simp add: mutate_decoded [OF r u] zeroResponse_def)
  }
  {
    assume "UnmarshalConfig ext doc = Inl e"
    then have "createPatch ext annotation pod = Inl e"
      by (rule createPatch_malformed [OF a])
    then show "\<exists>resp. mutate ext annotation ar = Done resp
               \<and> \<not> Allowed resp \<and> Result resp = Some \<lparr>Message = e\<rparr> \<and> Patch resp = []"
      using m by (simp add: mutate_decoded [OF r u] zeroResponse_def)
  }
qed

theorem mutate_no_match_allowed_witness:
  "(\<exists>resp. mutate tableExt defaultAnnotation (mkReview ''u-6'' ''default'' podCText) = Done resp
       \<and> Allowed resp \<and> Result resp = None \<and> Patch resp = [])
   \<and> (\<exists>resp. mutate tableExt defaultAnnotation (mkReview ''u-7'' ''default'' sidecarText) = Done resp
       \<and> Allowed resp \<and> Result resp = None \<and> Patch resp = [])
   \<and> (\<exists>resp. mutate tableExt defaultAnnotation (mkReview ''u-5'' ''default'' malformedText) = Done resp
       \<and> \<not> Allowed resp
       \<and> Result resp = Some \<lparr>Message = ''invalid character 'o' in literal null (expecting 'u')''\<rparr>
       \<and> Patch resp = [])"
proof (intro conjI)
  have r: "Request (mkReview ''u-6'' ''default'' podCText)
             = Some (mkRequest ''u-6'' ''default'' podCText)"
    by (simp add: mkReview_def)
  have u: "UnmarshalPod tableExt (ObjectRaw (mkRequest ''u-6'' ''default'' podCText)) = Inr podC"
    by (simp add: mkRequest_def table_podC)
  have m: "Namespace (ObjectMeta podC) \<notin> set ignoredNamespaces"
    by (simp add: podC_def mkPod_def ignoredNamespaces_def)
  have a: "Annotations (ObjectMeta podC) (defaultAnnotation @ ''.podDefinition'') = Some abDoc"
    by (simp add: podC_def mkPod_def)
  have n: "\<forall>q\<in>set (Pods abConfig). Name (ObjectMeta q) \<noteq> Name (ObjectMeta podC)"
    by (simp add: abConfig_def namedPod_def zeroPod_def podC_def mkPod_def)
  from mutate_no_match_allowed
         [where ar = "mkReview ''u-6'' ''default'' podCText" and ext = tableExt
            and req = "mkRequest ''u-6'' ''default'' podCText" and pod = podC
            and annotation = defaultAnnotation and doc = abDoc and c = abConfig]
       r u m a table_ab n
  show "\<exists>resp. mutate tableExt defaultAnnotation (mkReview ''u-6'' ''default'' podCText) = Done resp
       \<and> Allowed resp \<and> Result resp = None \<and> Patch resp = []"
    by blast
next
  have r: "Request (mkReview ''u-7'' ''default'' sidecarText)
             = Some (mkRequest ''u-7'' ''default'' sidecarText)"
    by (simp add: mkReview_def)
  have u: "UnmarshalPod tableExt (ObjectRaw (mkRequest ''u-7'' ''default'' sidecarText))
             = Inr sidecarPod"
    by (simp add: mkRequest_def table_sidecar)
  have m: "Namespace (ObjectMeta sidecarPod) \<notin> set ignoredNamespaces"
    by (simp add: sidecarPod_def mkPod_def ignoredNamespaces_def)
  have a: "Annotations (ObjectMeta sidecarPod) (defaultAnnotation @ ''.podDefinition'')
             = Some overrideDoc"
    by (simp add: sidecarPod_def mkPod_def)
  have f: "find_cpod (Name (ObjectMeta sidecarPod)) (Pods overrideConfig) zeroPod
             = (hd (Pods overrideConfig), True)"
    by (simp add: sidecarPod_def mkPod_def overrideConfig_entry)
  have n: "\<forall>cc\<in>set (Containers (Spec (hd (Pods overrideConfig)))).
             \<forall>ic\<in>set (Containers (Spec sidecarPod)). ContainerName cc \<noteq> ContainerName ic"
    by (simp add: overrideConfig_def sidecarPod_def mkPod_def sidecar_def)
  from mutate_no_match_allowed
         [where ar = "mkReview ''u-7'' ''default'' sidecarText" and ext = tableExt
            and req = "mkRequest ''u-7'' ''default'' sidecarText" and pod = sidecarPod
            and annotation = defaultAnnotation and doc = overrideDoc and c = overrideConfig
            and cpod = "hd (Pods overrideConfig)"]
       r u m a table_override f n
  show "\<exists>resp. mutate tableExt defaultAnnotation (mkReview ''u-7'' ''default'' sidecarText) = Done resp
       \<and> Allowed resp \<and> Result resp = None \<and> Patch resp = []"
    by blast
next
  have r: "Request (mkReview ''u-5'' ''default'' malformedText)
             = Some (mkRequest ''u-5'' ''default'' malformedText)"
    by (simp add: mkReview_def)
  have u: "UnmarshalPod tableExt (ObjectRaw (mkRequest ''u-5'' ''default'' malformedText))
             = Inr malformedPod"
    by (simp add: mkRequest_def table_malformed)
  have m: "Namespace (ObjectMeta malformedPod) \<notin> set ignoredNamespaces"
    by (simp add: malformedPod_def mkPod_def ignoredNamespaces_def)
  have a: "Annotations (ObjectMeta malformedPod) (defaultAnnotation @ ''.podDefinition'')
             = Some ''not json''"
    by (simp add: malformedPod_def mkPod_def)
  from mutate_no_match_allowed
         [where ar = "mkReview ''u-5'' ''default'' malformedText" and ext = tableExt
            and req = "mkRequest ''u-5'' ''default'' malformedText" and pod = malformedPod
            and annotation = defaultAnnotation and doc = "''not json''"
            and e = "''invalid character 'o' in literal null (expecting 'u')''"]
       r u m a table_not_json
  show "\<exists>resp. mutate tableExt defaultAnnotation (mkReview ''u-5'' ''default'' malformedText) = Done resp
       \<and> \<not> Allowed resp
       \<and> Result resp = Some \<lparr>Message = ''invalid character 'o' in literal null (expecting 'u')''\<rparr>
       \<and> Patch resp = []"
    by blast
qed

text \<open>
  C8 as stated fails: the body below is a review with the identifier \<^verbatim>\<open>abc\<close>, cut off
  before its last brace. \<^verbatim>\<open>Decode\<close> fails and leaves \<^verbatim>\<open>ar.Request\<close> nil, the guard
  \<^verbatim>\<open>ar.Request != nil\<close> skips the assignment, and the response goes out with an empty
  identifier.
\<close>

theorem serve_uid_counterexample:
  "serve tableExt defaultAnnotation
       \<lparr>Body = Some truncatedBody, ContentType = ''application/json''\<rparr>
     = Done (Review \<lparr>Request = None,
                     Response = Some \<lparr>RespUID = [], Allowed = False,
                       Result = Some \<lparr>Message =
                         ''couldn't get version/kind; json parse error: unexpected end of JSON input''\<rparr>,
                       Patch = [], PatchType = None\<rparr>\<rparr>)
   \<and> Request (fst (Decode tableExt truncatedBody)) = None"
proof
  have b: "truncatedBody \<noteq> []"
    by (simp add: truncatedBody_def)
  show "serve tableExt defaultAnnotation
       \<lparr>Body = Some truncatedBody, ContentType = ''application/json''\<rparr>
     = Done (Review \<lparr>Request = None,
                     Response = Some \<lparr>RespUID = [], Allowed = False,
                       Result = Some \<lparr>Message =
                         ''couldn't get version/kind; json parse error: unexpected end of JSON input''\<rparr>,
                       Patch = [], PatchType = None\<rparr>\<rparr>)"
    using b
    by (simp add: serve_decoded [OF _ _ _ table_truncatedBody] zeroReview_def zeroResponse_def)
  show "Request (fst (Decode tableExt truncatedBody)) = None"
    by (simp add: table_truncatedBody zeroReview_def)
qed

text \<open>
  C8, amended. For every body that reaches \<^verbatim>\<open>Decode\<close>: when the review holds a request
  afterwards (whether \<^verbatim>\<open>Decode\<close> reported an error or not), \<^verbatim>\<open>serve\<close> hands a response
  to the transport and its identifier is the request's; when the review holds no request
  and \<^verbatim>\<open>Decode\<close> failed, the response carries the error and an empty identifier; when it
  holds no request and \<^verbatim>\<open>Decode\<close> succeeded, there is no response.
\<close>

theorem serve_echoes_uid:
  "Body r = Some b \<and> b \<noteq> [] \<and> ContentType r = ''application/json''
     \<and> Decode ext b = (ar, err)
   \<longrightarrow> (case Request ar of
          Some req \<Rightarrow>
            (\<exists>resp. serve ext annotation r = Done (Review \<lparr>Request = None, Response = Some resp\<rparr>)
                    \<and> RespUID resp = UID req)
        | None \<Rightarrow>
            (case err of
               Some e \<Rightarrow>
                 serve ext annotation r =
                   Done (Review \<lparr>Request = None,
                                 Response = Some \<lparr>RespUID = [], Allowed = False,
                                                  Result = Some \<lparr>Message = e\<rparr>,
                                                  Patch = [], PatchType = None\<rparr>\<rparr>)
             | None \<Rightarrow> serve ext annotation r = NilPanic))"
proof
  assume h: "Body r = Some b \<and> b \<noteq> [] \<and> ContentType r = ''application/json''
     \<and> Decode ext b = (ar, err)"
  then have s: "serve ext annotation r =
           (case (case err of
                    Some e \<Rightarrow> Done (zeroResponse\<lparr>Result := Some \<lparr>Message = e\<rparr>\<rparr>)
                  | None \<Rightarrow> mutate ext annotation ar) of
              NilPanic \<Rightarrow> NilPanic
            | Done admissionResponse \<Rightarrow>
                Done (Review (zeroReview\<lparr>Response :=
                  Some (case Request ar of
                          None \<Rightarrow> admissionResponse
                        | Some req \<Rightarrow> admissionResponse\<lparr>RespUID := UID req\<rparr>)\<rparr>)))"
    by (simp add: serve_decoded)
  show "case Request ar of
          Some req \<Rightarrow>
            (\<exists>resp. serve ext annotation r = Done (Review \<lparr>Request = None, Response = Some resp\<rparr>)
                    \<and> RespUID resp = UID req)
        | None \<Rightarrow>
            (case err of
               Some e \<Rightarrow>
                 serve ext annotation r =
                   Done (Review \<lparr>Request = None,
                                 Response = Some \<lparr>RespUID = [], Allowed = False,
                                                  Result = Some \<lparr>Message = e\<rparr>,
                                                  Patch = [], PatchType = None\<rparr>\<rparr>)
             | None \<Rightarrow> serve ext annotation r = NilPanic)"
  proof (cases "Request ar")
    case None
    then have "mutate ext annotation ar = NilPanic"
      by (simp add: mutate_total)
    with None s show ?thesis
      by (simp add: zeroReview_def zeroResponse_def split: option.splits)
  next
    case (Some req)
    then have "mutate ext annotation ar \<noteq> NilPanic"
      by (simp add: mutate_total)
    then obtain resp where "mutate ext annotation ar = Done resp"
      by (cases "mutate ext annotation ar") auto
    with Some s show ?thesis
      by (simp add: zeroReview_def split: option.splits)
  qed
qed

theorem serve_echoes_uid_witness:
  "(\<exists>resp. serve tableExt defaultAnnotation
              \<lparr>Body = Some plainBody, ContentType = ''application/json''\<rparr>
            = Done (Review \<lparr>Request = None, Response = Some resp\<rparr>)
          \<and> RespUID resp = ''abc'')
   \<and> (\<exists>resp. serve tableExt defaultAnnotation
              \<lparr>Body = Some truncatedBody, ContentType = ''application/json''\<rparr>
            = Done (Review \<lparr>Request = None, Response = Some resp\<rparr>)
          \<and> RespUID resp = [])"
proof
  have b: "plainBody \<noteq> []"
    by (simp add: plainBody_def)
  from serve_echoes_uid
         [where r = "\<lparr>Body = Some plainBody, ContentType = ''application/json''\<rparr>"
            and b = plainBody and ext = tableExt and annotation = defaultAnnotation
            and ar = "mkReview ''abc'' ''default'' plainText" and err = None]
       b table_plainBody
  show "\<exists>resp. serve tableExt defaultAnnotation
              \<lparr>Body = Some plainBody, ContentType = ''application/json''\<rparr>
            = Done (Review \<lparr>Request = None, Response = Some resp\<rparr>)
          \<and> RespUID resp = ''abc''"
    by (simp add: mkReview_def mkRequest_def)
next
  have b: "truncatedBody \<noteq> []"
    by (simp add: truncatedBody_def)
  from serve_echoes_uid
         [where r = "\<lparr>Body = Some truncatedBody, ContentType = ''application/json''\<rparr>"
            and b = truncatedBody and ext = tableExt and annotation = defaultAnnotation
            and ar = zeroReview
            and err = "Some ''couldn't get version/kind; json parse error: unexpected end of JSON input''"]
       b table_truncatedBody
  show "\<exists>resp. serve tableExt defaultAnnotation
              \<lparr>Body = Some truncatedBody, ContentType = ''application/json''\<rparr>
            = Done (Review \<lparr>Request = None, Response = Some resp\<rparr>)
          \<and> RespUID resp = []"
    by (simp add: zeroReview_def)
qed

text \<open>
  C10. \<^verbatim>\<open>mutate\<close> panics on a nil pointer exactly when the review has no request, so it
  returns a response under the precondition that the request is there; and \<^verbatim>\<open>serve\<close>
  panics with it when \<^verbatim>\<open>Decode\<close> succeeds on a body and leaves the request nil.
\<close>

theorem mutate_nil_request_panics:
  "(mutate ext annotation ar = NilPanic) = (Request ar = None)
   \<and> (Body r = Some b \<and> b \<noteq> [] \<and> ContentType r = ''application/json''
        \<and> Decode ext b = (ar, None) \<and> Request ar = None
      \<longrightarrow> serve ext annotation r = NilPanic)"
proof (intro conjI impI)
  show "(mutate ext annotation ar = NilPanic) = (Request ar = None)"
    by (rule mutate_total)
next
  assume h: "Body r = Some b \<and> b \<noteq> [] \<and> ContentType r = ''application/json''
        \<and> Decode ext b = (ar, None) \<and> Request ar = None"
  then have "mutate ext annotation ar = NilPanic"
    by (simp add: mutate_total)
  moreover from h have "serve ext annotation r =
           (case mutate ext annotation ar of
              NilPanic \<Rightarrow> NilPanic
            | Done admissionResponse \<Rightarrow>
                Done (Review (zeroReview\<lparr>Response :=
                  Some (case Request ar of
                          None \<Rightarrow> admissionResponse
                        | Some req \<Rightarrow> admissionResponse\<lparr>RespUID := UID req\<rparr>)\<rparr>)))"
    by (simp add: serve_decoded [where err = None and ar = ar])
  ultimately show "serve ext annotation r = NilPanic"
    by simp
qed

theorem mutate_nil_request_panics_witness:
  "mutate tableExt defaultAnnotation zeroReview = NilPanic
   \<and> mutate tableExt defaultAnnotation (mkReview ''u-3'' ''default'' plainText) \<noteq> NilPanic
   \<and> serve tableExt defaultAnnotation
       \<lparr>Body = Some noRequestBody, ContentType = ''application/json''\<rparr> = NilPanic"
proof -
  have b: "noRequestBody \<noteq> []"
    by (simp add: noRequestBody_def)
  have z: "Request zeroReview = None"
    by (simp add: zeroReview_def)
  have p: "Request (mkReview ''u-3'' ''default'' plainText) \<noteq> None"
    by (simp add: mkReview_def)
  from mutate_nil_request_panics
         [where ext = tableExt and annotation = defaultAnnotation and ar = zeroReview
            and r = "\<lparr>Body = Some noRequestBody, ContentType = ''application/json''\<rparr>"
            and b = noRequestBody]
       b z table_noRequestBody
  have "mutate tableExt defaultAnnotation zeroReview = NilPanic
   \<and> serve tableExt defaultAnnotation
       \<lparr>Body = Some noRequestBody, ContentType = ''application/json''\<rparr> = NilPanic"
    by simp
  moreover from mutate_nil_request_panics
         [where ext = tableExt and annotation = defaultAnnotation
            and ar = "mkReview ''u-3'' ''default'' plainText"] p
  have "mutate tableExt defaultAnnotation (mkReview ''u-3'' ''default'' plainText) \<noteq> NilPanic"
    by simp
  ultimately show ?thesis
    by simp
qed

end
